theory Spec2Isabelle
  imports Complex_Main
begin

section \<open>Python values handled by the presentation layer (\<^verbatim>\<open>app.py\<close>)\<close>

text \<open>
  A Python \<^verbatim>\<open>str\<close> is a sequence of Unicode code points; \<open>str\<close> turns an ASCII
  literal into one.
\<close>

type_synonym pystr = "nat list"

definition str :: "string \<Rightarrow> pystr" where
  "str s = map of_char s"

text \<open>
  \<^verbatim>\<open>str.isspace\<close> on one code point: the code points Python treats as whitespace
  (tab to carriage return, the separators 0x1C to 0x1F, space, NEL, no-break space and the
  Unicode space separators).
\<close>

definition py_isspace :: "nat \<Rightarrow> bool" where
  "py_isspace c \<longleftrightarrow>
     (9 \<le> c \<and> c \<le> 13) \<or> (28 \<le> c \<and> c \<le> 32) \<or> c = 133 \<or> c = 160 \<or> c = 5760 \<or>
     (8192 \<le> c \<and> c \<le> 8202) \<or> c = 8232 \<or> c = 8233 \<or> c = 8239 \<or> c = 8287 \<or> c = 12288"

text \<open>\<^verbatim>\<open>s.strip()\<close>: leading and trailing whitespace removed.\<close>

definition strip :: "pystr \<Rightarrow> pystr" where
  "strip s = rev (dropWhile py_isspace (rev (dropWhile py_isspace s)))"

text \<open>
  The values \<^verbatim>\<open>helper.query_point_creator\<close> can hand back to the page. Python is
  dynamically typed, so the page's unpacking and indexing are checked at run time;
  \<open>PyNum\<close> is a NumPy float scalar, \<open>NdArray1\<close> and \<open>NdArray2\<close> are one- and
  two-dimensional NumPy arrays (the latter as its list of rows). These are the kinds of
  value considered; an object of another class that answers the same operations (a
  dictionary keyed by index pairs, say) is outside the model, so what is proved of "every
  value" is proved of these kinds.
\<close>

datatype pyval =
    PyNone
  | PyNum real
  | PyStr pystr
  | PyTuple "pyval list"
  | PyList "pyval list"
  | NdArray1 "real list"
  | NdArray2 "real list list"

text \<open>
  The exceptions of the run: the three the page's own unpacking, indexing and sampling can
  raise, and \<open>HelperError\<close> for whatever else the helper raises.
\<close>

datatype py_error = ValueError | TypeError | IndexError | HelperError

text \<open>Iterating a value, as tuple unpacking does.\<close>

fun py_iter :: "pyval \<Rightarrow> py_error + pyval list" where
  "py_iter (PyTuple xs) = Inr xs"
| "py_iter (PyList xs) = Inr xs"
| "py_iter (PyStr s) = Inr (map (\<lambda>c. PyStr [c]) s)"
| "py_iter (NdArray1 xs) = Inr (map PyNum xs)"
| "py_iter (NdArray2 rows) = Inr (map NdArray1 rows)"
| "py_iter PyNone = Inl TypeError"
| "py_iter (PyNum x) = Inl TypeError"

text \<open>
  \<^verbatim>\<open>a, b = v\<close>: exactly two items, otherwise \<^verbatim>\<open>ValueError\<close> (too many or not
  enough values to unpack).
\<close>

definition unpack2 :: "pyval \<Rightarrow> py_error + pyval \<times> pyval" where
  "unpack2 v =
     (case py_iter v of
        Inl e \<Rightarrow> Inl e
      | Inr items \<Rightarrow>
          (case items of
             [a, b] \<Rightarrow> Inr (a, b)
           | _ \<Rightarrow> Inl ValueError))"

text \<open>
  \<^verbatim>\<open>v[i, j]\<close> with two non-negative integer indices. Among the values modelled,
  only a two-dimensional array has such an entry: a one-dimensional array and a scalar
  raise \<^verbatim>\<open>IndexError\<close> (too many indices), the built-in sequences and
  \<^verbatim>\<open>None\<close> raise \<^verbatim>\<open>TypeError\<close>.
\<close>

fun getitem2 :: "pyval \<Rightarrow> nat \<Rightarrow> nat \<Rightarrow> py_error + real" where
  "getitem2 (NdArray2 rows) i j =
     (if i < length rows \<and> j < length (rows ! i) then Inr (rows ! i ! j) else Inl IndexError)"
| "getitem2 (NdArray1 xs) i j = Inl IndexError"
| "getitem2 (PyNum x) i j = Inl IndexError"
| "getitem2 PyNone i j = Inl TypeError"
| "getitem2 (PyStr s) i j = Inl TypeError"
| "getitem2 (PyTuple xs) i j = Inl TypeError"
| "getitem2 (PyList xs) i j = Inl TypeError"

text \<open>
  \<^verbatim>\<open>v[i, a:b]\<close> with \<open>0 \<le> a \<le> b\<close>: the slice of row \<open>i\<close>; a slice is cut
  to the row's length and never raises by itself.
\<close>

fun getslice2 :: "pyval \<Rightarrow> nat \<Rightarrow> nat \<Rightarrow> nat \<Rightarrow> py_error + real list" where
  "getslice2 (NdArray2 rows) i a b =
     (if i < length rows then Inr (take (b - a) (drop a (rows ! i))) else Inl IndexError)"
| "getslice2 (NdArray1 xs) i a b = Inl IndexError"
| "getslice2 (PyNum x) i a b = Inl IndexError"
| "getslice2 PyNone i a b = Inl TypeError"
| "getslice2 (PyStr s) i a b = Inl TypeError"
| "getslice2 (PyTuple xs) i a b = Inl TypeError"
| "getslice2 (PyList xs) i a b = Inl TypeError"


text \<open>Indexing a one-dimensional slice, \<^verbatim>\<open>basic_features[k]\<close>.\<close>

definition item :: "real list \<Rightarrow> nat \<Rightarrow> py_error + real" where
  "item xs k = (if k < length xs then Inr (xs ! k) else Inl IndexError)"

text \<open>
  \<^verbatim>\<open>np.random.normal(loc, scale, n)\<close>: the samples only feed the background points of
  a plot and are left out; what is kept is that a negative scale raises
  \<^verbatim>\<open>ValueError\<close>.
\<close>

definition random_normal :: "real \<Rightarrow> real \<Rightarrow> py_error + unit" where
  "random_normal loc scale = (if scale < 0 then Inl ValueError else Inr ())"

section \<open>The page as a run: calls made, elements rendered, exception raised\<close>

datatype verdict = Duplicate | NotDuplicate

text \<open>
  The elements of the page that carry data of the comparison, in the order the script
  renders them. Styling, static markup, the spinner and the animations are left out.
\<close>

datatype ui =
    WarningBox
  | SuccessBox
  | Meter real "string \<times> string" real
  | VerdictBox verdict
  | TokenChart "real list"
  | FuzzyChart "real list"
  | Scatter3D real real real
  | RawTable string "string list" "real list"
  | Metric real

record run =
  calls :: "(pystr \<times> pystr) list"
  rendered :: "ui list"
  raised :: "py_error option"

definition idle :: run where
  "idle = \<lparr>calls = [], rendered = [], raised = None\<rparr>"

definition called :: "pystr \<Rightarrow> pystr \<Rightarrow> run \<Rightarrow> run" where
  "called a b r = r\<lparr>calls := calls r @ [(a, b)]\<rparr>"

definition render :: "ui \<Rightarrow> run \<Rightarrow> run" where
  "render u r = r\<lparr>rendered := rendered r @ [u]\<rparr>"

definition raise :: "py_error \<Rightarrow> run \<Rightarrow> run" where
  "raise e r = r\<lparr>raised := Some e\<rparr>"

text \<open>An expression that may raise, followed by the rest of the script.\<close>

definition on_value :: "py_error + 'a \<Rightarrow> ('a \<Rightarrow> run \<Rightarrow> run) \<Rightarrow> run \<Rightarrow> run" where
  "on_value m k r = (case m of Inl e \<Rightarrow> raise e r | Inr x \<Rightarrow> k x r)"

text \<open>Two blocks in sequence: an exception in the first skips the second.\<close>

definition seq :: "(run \<Rightarrow> run) \<Rightarrow> (run \<Rightarrow> run) \<Rightarrow> run \<Rightarrow> run" where
  "seq f g r = (let r' = f r in if raised r' = None then g r' else r')"

section \<open>The comparison handler of \<^verbatim>\<open>app.py\<close>\<close>

text \<open>The two gradient colours of the similarity meter (lines 227 and 228).\<close>

definition meter_colours :: "real \<Rightarrow> string \<times> string" where
  "meter_colours cosine_sim =
     (if cosine_sim < 3 / 10 then (''#ff4e50'', ''#f9d423'')
      else if cosine_sim < 7 / 10 then (''#ffd452'', ''#1cb142'')
      else (''#1cb142'', ''#0f9b0f''))"

text \<open>Lines 221 to 254: the meter, the score and the judgment.\<close>

definition judge :: "real \<Rightarrow> real \<Rightarrow> verdict" where
  "judge cosine_sim similarity_threshold =
     (if cosine_sim > similarity_threshold then Duplicate else NotDuplicate)"

definition result_card :: "real \<Rightarrow> real \<Rightarrow> run \<Rightarrow> run" where
  "result_card cosine_sim similarity_threshold =
     seq (render SuccessBox)
       (seq (render (Meter (cosine_sim * 100) (meter_colours cosine_sim) cosine_sim))
          (render (VerdictBox (judge cosine_sim similarity_threshold))))"

text \<open>Lines 270 to 309, the tab "Feature Comparison".\<close>

definition feature_tab :: "pyval \<Rightarrow> run \<Rightarrow> run" where
  "feature_tab query =
     on_value (getslice2 query 0 7 15) (\<lambda>token_features.
     on_value (getslice2 query 0 18 22) (\<lambda>fuzzy_features.
       seq (render (TokenChart token_features)) (render (FuzzyChart fuzzy_features))))"

text \<open>Lines 311 to 377, the tab "3D Visualization".\<close>

definition space_tab :: "pyval \<Rightarrow> run \<Rightarrow> run" where
  "space_tab query =
     on_value (getslice2 query 0 0 3) (\<lambda>basic_features.
     on_value (item basic_features 0) (\<lambda>b0.
     on_value (random_normal b0 (b0 * (2 / 10))) (\<lambda>x.
     on_value (item basic_features 1) (\<lambda>b1.
     on_value (random_normal b1 (b1 * (2 / 10))) (\<lambda>y.
     on_value (item basic_features 2) (\<lambda>b2.
     on_value (random_normal b2 (b2 * (2 / 10))) (\<lambda>z.
       render (Scatter3D b0 b1 b2))))))))"

text \<open>Lines 379 to 424, the tab "Raw Data".\<close>

definition basic_labels :: "string list" where
  "basic_labels = [''Q1 Length'', ''Q2 Length'', ''Q1 Word Count'', ''Q2 Word Count'',
     ''Common Words'', ''Total Words'', ''Common/Total Ratio'']"

definition length_labels :: "string list" where
  "length_labels = [''Absolute Length Diff'', ''Average Token Length'',
     ''Longest Common Substring Ratio'']"

definition token_labels :: "string list" where
  "token_labels = [''Common Word Ratio'', ''Word Ratio Max'', ''Stop Word Ratio'',
     ''Stop Word Ratio Max'', ''Token Ratio'', ''Token Ratio Max'', ''Last Word Match'',
     ''First Word Match'']"

definition fuzzy_labels :: "string list" where
  "fuzzy_labels = [''Fuzz Ratio'', ''Partial Ratio'', ''Token Sort Ratio'', ''Token Set Ratio'']"

definition raw_tab :: "pyval \<Rightarrow> real \<Rightarrow> run \<Rightarrow> run" where
  "raw_tab query cosine_sim =
     on_value (getslice2 query 0 0 7) (\<lambda>basic_features.
     on_value (getslice2 query 0 7 15) (\<lambda>token_features.
     on_value (getslice2 query 0 15 18) (\<lambda>length_features.
     on_value (getslice2 query 0 18 22) (\<lambda>fuzzy_features.
       seq (render (RawTable ''Basic Features'' basic_labels basic_features))
      (seq (render (RawTable ''Length Features'' length_labels length_features))
      (seq (render (RawTable ''Token Features'' token_labels token_features))
      (seq (render (RawTable ''Fuzzy Features'' fuzzy_labels fuzzy_features))
           (render (Metric cosine_sim)))))))))"

text \<open>
  Lines 198 to 426, the body of \<^verbatim>\<open>if compare_button\<close>. The helper is the module
  \<^verbatim>\<open>helper\<close>, which the page imports: it is a parameter here, a function from the two
  question strings to the value it returns or the exception it raises.
\<close>

type_synonym helper = "pystr \<Rightarrow> pystr \<Rightarrow> py_error + pyval"

definition compare_questions :: "helper \<Rightarrow> real \<Rightarrow> pystr \<Rightarrow> pystr \<Rightarrow> run" where
  "compare_questions query_point_creator similarity_threshold q1 q2 =
     (if strip q1 = [] \<or> strip q2 = [] then render WarningBox idle
      else
        on_value (query_point_creator q1 q2) (\<lambda>res.
        on_value (unpack2 res) (\<lambda>(query, result_message).
        on_value (getitem2 query 0 22) (\<lambda>cosine_sim.
          seq (result_card cosine_sim similarity_threshold)
         (seq (feature_tab query)
         (seq (space_tab query)
              (raw_tab query cosine_sim))))))
        (called q1 q2 idle))"

text \<open>One run of the script: the handler runs when the button was pressed.\<close>

definition app :: "helper \<Rightarrow> real \<Rightarrow> bool \<Rightarrow> pystr \<Rightarrow> pystr \<Rightarrow> run" where
  "app query_point_creator similarity_threshold compare_button q1 q2 =
     (if compare_button then compare_questions query_point_creator similarity_threshold q1 q2
      else idle)"

text \<open>The judgments a run has rendered.\<close>

fun verdicts :: "ui list \<Rightarrow> verdict list" where
  "verdicts [] = []"
| "verdicts (VerdictBox v # us) = v # verdicts us"
| "verdicts (u # us) = verdicts us"

text \<open>The similarity scores a run has shown on the meter.\<close>

fun scores :: "ui list \<Rightarrow> real list" where
  "scores [] = []"
| "scores (Meter width colours score # us) = score # scores us"
| "scores (u # us) = scores us"

section \<open>The feature pipeline, modelled from the specification\<close>

text \<open>
  The page imports the pipeline as the module \<^verbatim>\<open>helper\<close>; the repository's sources
  hold \<^verbatim>\<open>app.py\<close> only. The definitions of this section follow the component
  descriptions of the specification (sections 3, 4.1 to 4.6 and 6) instead.
\<close>

text \<open>
  Modelled from the spec: what the missing pipeline takes from outside (sections 3, 4.1,
  4.3, 4.4 and 9). The normalizer's substitution tables, the stopword list and the
  vocabulary are "implementation-specific lookup tables", and the four fuzzy scorers are
  "standard approximate string-similarity metrics" of a library; the specification fixes
  none of them, so they are parameters. The vocabulary is the list of its tokens: the token
  at position \<open>i\<close> has column index \<open>i\<close>.
\<close>

record tables =
  normalizer :: "pystr \<Rightarrow> pystr"
  stopwords :: "pystr list"
  vocabulary :: "pystr list"
  epsilon :: real
  fuzz_ratio :: "pystr \<Rightarrow> pystr \<Rightarrow> real"
  fuzz_partial_ratio :: "pystr \<Rightarrow> pystr \<Rightarrow> real"
  fuzz_token_sort_ratio :: "pystr \<Rightarrow> pystr \<Rightarrow> real"
  fuzz_token_set_ratio :: "pystr \<Rightarrow> pystr \<Rightarrow> real"

text \<open>
  Modelled from the spec: splitting a normalized question on whitespace (section 3), one
  code point at a time; \<open>cur\<close> is the token being read, reversed. Runs of whitespace
  give no empty token.
\<close>

fun split_acc :: "pystr \<Rightarrow> pystr \<Rightarrow> pystr list" where
  "split_acc cur [] = (if cur = [] then [] else [rev cur])"
| "split_acc cur (c # cs) =
     (if py_isspace c then (if cur = [] then split_acc [] cs else rev cur # split_acc [] cs)
      else split_acc (c # cur) cs)"

text \<open>
  Modelled from the spec: the token sequence of a normalized question (section 3), "ordered
  sequence of strings, splitting on whitespace".
\<close>

definition tokens :: "pystr \<Rightarrow> pystr list" where
  "tokens s = split_acc [] s"

text \<open>
  Modelled from the spec: the number of common words (section 4.2), "size of the
  intersection of the two token sets (case-insensitive, duplicates collapsed)"; case is
  folded by the normalizer already.
\<close>

definition common_count :: "pystr list \<Rightarrow> pystr list \<Rightarrow> nat" where
  "common_count ws1 ws2 = length (remdups (filter (\<lambda>w. w \<in> set ws2) ws1))"

text \<open>
  Modelled from the spec: the seven basic features (section 4.2) of two normalized
  questions: the character length of each, the word count of each, the count of common
  words, the total word count (the sum of the two word counts) and the ratio
  common / (total + \<open>\<epsilon>\<close>).
\<close>

definition basic_features :: "tables \<Rightarrow> pystr \<Rightarrow> pystr \<Rightarrow> real list" where
  "basic_features T n1 n2 =
     (let common = real (common_count (tokens n1) (tokens n2));
          total = real (length (tokens n1) + length (tokens n2))
      in [real (length n1), real (length n2),
          real (length (tokens n1)), real (length (tokens n2)),
          common, total, common / (total + epsilon T)])"

text \<open>
  Modelled from the spec: whether the first tokens of both questions match (section 4.2),
  as 0 or 1; by the default of section 9, two empty token sequences count as a match.
\<close>

definition first_match :: "pystr list \<Rightarrow> pystr list \<Rightarrow> real" where
  "first_match ws1 ws2 =
     (case (ws1, ws2) of
        ([], []) \<Rightarrow> 1
      | (w1 # _, w2 # _) \<Rightarrow> (if w1 = w2 then 1 else 0)
      | _ \<Rightarrow> 0)"

text \<open>
  Modelled from the spec: whether the last tokens of both questions match (section 4.2),
  with the same default.
\<close>

definition last_match :: "pystr list \<Rightarrow> pystr list \<Rightarrow> real" where
  "last_match ws1 ws2 = first_match (rev ws1) (rev ws2)"

text \<open>
  Modelled from the spec: the eight token features (section 4.2): the common
  non-stopword-token ratio normalized by the smaller and by the larger token count, the
  common-stopword ratio normalized by both, the common-token ratio (all tokens) normalized
  by both, whether the last tokens match and whether the first tokens match. Every
  denominator has \<open>\<epsilon>\<close> added.
\<close>

definition token_features :: "tables \<Rightarrow> pystr \<Rightarrow> pystr \<Rightarrow> real list" where
  "token_features T n1 n2 =
     (let ws1 = tokens n1; ws2 = tokens n2;
          is_stop = (\<lambda>w. w \<in> set (stopwords T));
          common_words = real (common_count (filter (\<lambda>w. \<not> is_stop w) ws1)
                                            (filter (\<lambda>w. \<not> is_stop w) ws2));
          common_stops = real (common_count (filter is_stop ws1) (filter is_stop ws2));
          common_tokens = real (common_count ws1 ws2);
          lo = real (min (length ws1) (length ws2)) + epsilon T;
          hi = real (max (length ws1) (length ws2)) + epsilon T
      in [common_words / lo, common_words / hi,
          common_stops / lo, common_stops / hi,
          common_tokens / lo, common_tokens / hi,
          last_match ws1 ws2, first_match ws1 ws2])"

text \<open>
  Modelled from the spec: one step of the dynamic-programming table for the longest common
  contiguous run of two token sequences (section 4.2): the row of a token \<open>x\<close> of the
  first sequence from the row before it, and the longest run seen so far.
\<close>

definition lcs_step :: "pystr list \<Rightarrow> nat list \<times> nat \<Rightarrow> pystr \<Rightarrow> nat list \<times> nat" where
  "lcs_step ws2 state x =
     (let row = map2 (\<lambda>y p. if x = y then Suc p else 0) ws2 (0 # fst state)
      in (row, fold max row (snd state)))"

text \<open>
  Modelled from the spec: the length of the longest common contiguous run (section 4.2),
  "found via dynamic-programming longest-common-substring over token sequences, not
  characters".
\<close>

definition longest_common_run :: "pystr list \<Rightarrow> pystr list \<Rightarrow> nat" where
  "longest_common_run ws1 ws2 = snd (foldl (lcs_step ws2) (replicate (length ws2) 0, 0) ws1)"

text \<open>
  Modelled from the spec: the three length features (section 4.2): the absolute
  difference of the token counts, the mean of the two questions' token lengths, and the
  ratio of the longest common run to the combined token count (plus \<open>\<epsilon>\<close>).
\<close>

definition length_features :: "tables \<Rightarrow> pystr \<Rightarrow> pystr \<Rightarrow> real list" where
  "length_features T n1 n2 =
     (let ws1 = tokens n1; ws2 = tokens n2
      in [\<bar>real (length ws1) - real (length ws2)\<bar>,
          (real (length ws1) + real (length ws2)) / 2,
          real (longest_common_run ws1 ws2) / (real (length ws1 + length ws2) + epsilon T)])"

text \<open>
  Modelled from the spec: the four fuzzy features (section 4.3), computed on the two
  normalized strings: plain, partial, token-sort and token-set ratio.
\<close>

definition fuzzy_features :: "tables \<Rightarrow> pystr \<Rightarrow> pystr \<Rightarrow> real list" where
  "fuzzy_features T n1 n2 =
     [fuzz_ratio T n1 n2, fuzz_partial_ratio T n1 n2,
      fuzz_token_sort_ratio T n1 n2, fuzz_token_set_ratio T n1 n2]"

text \<open>
  Modelled from the spec: the vector-space embedder (section 4.4): position \<open>i\<close> holds
  the number of occurrences of vocabulary token \<open>i\<close> in the question's token sequence;
  tokens outside the vocabulary contribute nothing.
\<close>

definition embedding :: "pystr list \<Rightarrow> pystr list \<Rightarrow> real list" where
  "embedding vocab ws = map (\<lambda>v. real (count_list ws v)) vocab"

text \<open>Modelled from the spec: the dot product of two embedding vectors (section 4.5).\<close>

definition dot :: "real list \<Rightarrow> real list \<Rightarrow> real" where
  "dot a b = sum_list (map2 (*) a b)"

text \<open>Modelled from the spec: the Euclidean norm of an embedding vector (section 4.5).\<close>

definition norm2 :: "real list \<Rightarrow> real" where
  "norm2 a = sqrt (dot a a)"

text \<open>
  Modelled from the spec: the similarity scorer (section 4.5): the dot product over the
  product of the norms, clamped into [0, 1], and defined as 0 when either norm is 0.
\<close>

definition cosine_similarity :: "real list \<Rightarrow> real list \<Rightarrow> real" where
  "cosine_similarity a b =
     (if norm2 a = 0 \<or> norm2 b = 0 then 0
      else min 1 (max 0 (dot a b / (norm2 a * norm2 b))))"

text \<open>
  Modelled from the spec: what a floating-point quotient can be (sections 4.5 and 7): a
  number, an infinity, or "NaN", the value the scorer must not propagate.
\<close>

datatype fnum = Num real | PosInf | NegInf | NaN

text \<open>
  Modelled from the spec: the floating-point quotient behind "dot(a,b) / (norm a * norm b)"
  (section 4.5). Dividing zero by zero is not a number; dividing anything else by zero is
  an infinity.
\<close>

definition fdiv :: "real \<Rightarrow> real \<Rightarrow> fnum" where
  "fdiv x y =
     (if y \<noteq> 0 then Num (x / y)
      else if x = 0 then NaN
      else if 0 < x then PosInf else NegInf)"

text \<open>
  Modelled from the spec: clamping into [0, 1] (section 4.5); a value that is not a number
  stays so, which is why the scorer needs its guard.
\<close>

fun clamp01 :: "fnum \<Rightarrow> fnum" where
  "clamp01 (Num x) = Num (min 1 (max 0 x))"
| "clamp01 PosInf = Num 1"
| "clamp01 NegInf = Num 0"
| "clamp01 NaN = NaN"

text \<open>
  Modelled from the spec: the formula of section 4.5 alone, "cosine similarity = dot(a,b) /
  (norm a * norm b), clamped into [0,1]", without the guard.
\<close>

definition cosine_quotient :: "real list \<Rightarrow> real list \<Rightarrow> fnum" where
  "cosine_quotient a b = clamp01 (fdiv (dot a b) (norm2 a * norm2 b))"

text \<open>
  Modelled from the spec: the similarity scorer of section 4.5 in floating point: the
  formula, guarded "against a zero-norm vector, defining similarity as 0 when either
  vector's norm is 0, rather than propagating NaN" (the NumericDegenerate case of section
  7, handled locally). The number it returns is \<open>cosine_similarity\<close>.
\<close>

definition cosine_scorer :: "real list \<Rightarrow> real list \<Rightarrow> fnum" where
  "cosine_scorer a b =
     (if norm2 a = 0 \<or> norm2 b = 0 then Num 0 else cosine_quotient a b)"

text \<open>
  Modelled from the spec: the cosine similarity of two questions (sections 4.4 and 4.5):
  each question is normalized and embedded on its own, with the same vocabulary, and the
  two embeddings are scored.
\<close>

definition question_similarity :: "tables \<Rightarrow> pystr \<Rightarrow> pystr \<Rightarrow> real" where
  "question_similarity T question_a question_b =
     cosine_similarity (embedding (vocabulary T) (tokens (normalizer T question_a)))
                       (embedding (vocabulary T) (tokens (normalizer T question_b)))"

text \<open>
  Modelled from the spec: the feature vector assembler (section 4.6), the public operation
  \<open>compute_features\<close> of section 6. Both questions are normalized; the groups are
  concatenated "in this exact order": basic, token, length, fuzzy, cosine similarity. The
  function is total: refusing blank questions is the presentation layer's part (section
  7), and the denominators are guarded by \<open>\<epsilon>\<close>.
\<close>

definition compute_features :: "tables \<Rightarrow> pystr \<Rightarrow> pystr \<Rightarrow> real list" where
  "compute_features T question_a question_b =
     (let n1 = normalizer T question_a; n2 = normalizer T question_b
      in basic_features T n1 n2 @ token_features T n1 n2 @ length_features T n1 n2 @
         fuzzy_features T n1 n2 @ [question_similarity T question_a question_b])"

text \<open>
  Modelled from the spec: the convenience operation \<open>score\<close> of section 6, field 22 of
  the feature vector.
\<close>

definition score :: "tables \<Rightarrow> pystr \<Rightarrow> pystr \<Rightarrow> real" where
  "score T question_a question_b = compute_features T question_a question_b ! 22"

text \<open>
  Sample data: a 23-value feature vector, and helpers that return it the way the page
  expects it (a pair of a one-row array and a message) and as a bare vector.
\<close>

definition sample_vector :: "real list" where
  "sample_vector =
     [22, 23, 5, 5, 4, 10, 4 / 10,
      99 / 100, 99 / 100, 66 / 100, 66 / 100, 8 / 10, 8 / 10, 1, 0,
      0, 5, 9 / 10,
      93, 95, 93, 100,
      92 / 100]"

definition pair_helper :: helper where
  "pair_helper q1 q2 = Inr (PyTuple [NdArray2 [sample_vector], PyStr (str ''Duplicate'')])"


text \<open>A second vector that agrees with the first at index 22 only, and its helper.\<close>

definition other_vector :: "real list" where
  "other_vector =
     [15, 20, 3, 5, 2, 8, 25 / 100,
      5 / 10, 4 / 10, 1, 1, 6 / 10, 5 / 10, 0, 1,
      2, 4, 3 / 10,
      70, 80, 65, 90,
      92 / 100]"

definition other_pair_helper :: helper where
  "other_pair_helper q1 q2 = Inr (PyTuple [NdArray2 [other_vector], PyStr (str ''Duplicate'')])"



text \<open>
  A small deterministic set of tables for the modelled pipeline: a normalizer that drops
  question marks, folds ASCII case and trims; six stopwords; a vocabulary of four tokens;
  and a crude stand-in for the fuzzy scorers.
\<close>

definition fold_case :: "nat \<Rightarrow> nat" where
  "fold_case c = (if 65 \<le> c \<and> c \<le> 90 then c + 32 else c)"

definition sample_normalizer :: "pystr \<Rightarrow> pystr" where
  "sample_normalizer s = strip (map fold_case (filter (\<lambda>c. c \<noteq> 63) s))"

definition sample_fuzz :: "pystr \<Rightarrow> pystr \<Rightarrow> real" where
  "sample_fuzz a b = (if a = b then 100 else 0)"

definition sample_tables :: tables where
  "sample_tables =
     \<lparr>normalizer = sample_normalizer,
      stopwords = [str ''what'', str ''is'', str ''the'', str ''of'', str ''how'', str ''to''],
      vocabulary = [str ''capital'', str ''france'', str ''python'', str ''learn''],
      epsilon = 1 / 10000,
      fuzz_ratio = sample_fuzz,
      fuzz_partial_ratio = sample_fuzz,
      fuzz_token_sort_ratio = sample_fuzz,
      fuzz_token_set_ratio = sample_fuzz\<rparr>"

section \<open>Properties of the comparison handler\<close>

lemma verdicts_append: "verdicts (xs @ ys) = verdicts xs @ verdicts ys"
  by (induction xs rule: verdicts.induct) simp_all

lemma scores_append: "scores (xs @ ys) = scores xs @ scores ys"
  by (induction xs rule: scores.induct) simp_all

text \<open>The three tabs make no call and render neither a judgment nor a meter.\<close>

lemma feature_tab_frame:
  "calls (feature_tab q r) = calls r \<and>
   verdicts (rendered (feature_tab q r)) = verdicts (rendered r) \<and>
   scores (rendered (feature_tab q r)) = scores (rendered r)"
  by (simp add: feature_tab_def on_value_def seq_def render_def raise_def Let_def
      verdicts_append scores_append split: sum.splits)

lemma space_tab_frame:
  "calls (space_tab q r) = calls r \<and>
   verdicts (rendered (space_tab q r)) = verdicts (rendered r) \<and>
   scores (rendered (space_tab q r)) = scores (rendered r)"
  by (simp add: space_tab_def on_value_def seq_def render_def raise_def Let_def
      verdicts_append scores_append split: sum.splits)

lemma raw_tab_frame:
  "calls (raw_tab q c r) = calls r \<and>
   verdicts (rendered (raw_tab q c r)) = verdicts (rendered r) \<and>
   scores (rendered (raw_tab q c r)) = scores (rendered r)"
  by (simp add: raw_tab_def on_value_def seq_def render_def raise_def Let_def
      verdicts_append scores_append split: sum.splits)

lemma seq_frame:
  assumes "\<And>r. calls (f r) = calls r \<and> verdicts (rendered (f r)) = verdicts (rendered r) \<and>
             scores (rendered (f r)) = scores (rendered r)"
    and "\<And>r. calls (g r) = calls r \<and> verdicts (rendered (g r)) = verdicts (rendered r) \<and>
             scores (rendered (g r)) = scores (rendered r)"
  shows "calls (seq f g r) = calls r \<and>
         verdicts (rendered (seq f g r)) = verdicts (rendered r) \<and>
         scores (rendered (seq f g r)) = scores (rendered r)"
  using assms by (simp add: seq_def Let_def)

lemma tabs_frame:
  "calls (seq (feature_tab q) (seq (space_tab q) (raw_tab q c)) r) = calls r \<and>
   verdicts (rendered (seq (feature_tab q) (seq (space_tab q) (raw_tab q c)) r)) =
     verdicts (rendered r) \<and>
   scores (rendered (seq (feature_tab q) (seq (space_tab q) (raw_tab q c)) r)) =
     scores (rendered r)"
  by (intro seq_frame feature_tab_frame space_tab_frame raw_tab_frame)

lemma result_card_run:
  "raised r = None \<Longrightarrow>
   result_card c t r =
     r\<lparr>rendered := rendered r @
        [SuccessBox, Meter (c * 100) (meter_colours c) c, VerdictBox (judge c t)]\<rparr>"
  by (simp add: result_card_def seq_def render_def Let_def)

text \<open>
  The run of the handler once the helper's value has been unpacked and entry \<open>[0, 22]\<close>
  read: the call, the card, then the tabs.
\<close>

lemma compare_questions_read:
  assumes "strip q1 \<noteq> []" and "strip q2 \<noteq> []"
    and "h q1 q2 = Inr res" and "unpack2 res = Inr (query, msg)"
    and "getitem2 query 0 22 = Inr c"
  shows "compare_questions h t q1 q2 =
     seq (feature_tab query) (seq (space_tab query) (raw_tab query c))
       \<lparr>calls = [(q1, q2)],
        rendered = [SuccessBox, Meter (c * 100) (meter_colours c) c, VerdictBox (judge c t)],
        raised = None\<rparr>"
proof -
  let ?r0 = "\<lparr>calls = [(q1, q2)], rendered = [], raised = None\<rparr>"
  have r0: "called q1 q2 idle = ?r0"
    by (simp add: called_def idle_def)
  have "compare_questions h t q1 q2 =
      seq (result_card c t) (seq (feature_tab query) (seq (space_tab query) (raw_tab query c))) ?r0"
    using assms by (simp add: compare_questions_def on_value_def r0)
  also have "\<dots> = seq (feature_tab query) (seq (space_tab query) (raw_tab query c))
      (result_card c t ?r0)"
    by (subst seq_def) (simp add: Let_def result_card_run)
  finally show ?thesis
    by (simp add: result_card_run)
qed


lemma compare_questions_verdicts:
  assumes "strip q1 \<noteq> []" and "strip q2 \<noteq> []"
    and "h q1 q2 = Inr res" and "unpack2 res = Inr (query, msg)"
    and "getitem2 query 0 22 = Inr c"
  shows "verdicts (rendered (compare_questions h t q1 q2)) = [judge c t]"
  unfolding compare_questions_read [where h = h and ?q1.0 = q1 and ?q2.0 = q2, OF assms]
    tabs_frame [THEN conjunct2, THEN conjunct1]
  by simp


text \<open>Without a value at \<open>[0, 22]\<close> of an unpacked pair, nothing is rendered.\<close>

lemma compare_questions_unread:
  assumes "strip q1 \<noteq> []" and "strip q2 \<noteq> []"
    and "\<nexists>res query msg c. h q1 q2 = Inr res \<and> unpack2 res = Inr (query, msg) \<and>
           getitem2 query 0 22 = Inr c"
  shows "rendered (compare_questions h t q1 q2) = [] \<and>
         raised (compare_questions h t q1 q2) \<noteq> None"
  using assms
  by (auto simp: compare_questions_def on_value_def raise_def called_def idle_def
      split: sum.splits prod.splits)


text \<open>
  A complete run on the sample data: one call, the card with score and judgment, the two
  charts, the query point and the raw tables.
\<close>

lemma sample_run:
  "compare_questions pair_helper (85 / 100)
      (str ''How do I learn Python?'') (str ''How can I learn Python?'') =
     \<lparr>calls = [(str ''How do I learn Python?'', str ''How can I learn Python?'')],
      rendered =
        [SuccessBox,
         Meter 92 (''#1cb142'', ''#0f9b0f'') (92 / 100),
         VerdictBox Duplicate,
         TokenChart [99 / 100, 99 / 100, 66 / 100, 66 / 100, 8 / 10, 8 / 10, 1, 0],
         FuzzyChart [93, 95, 93, 100],
         Scatter3D 22 23 5,
         RawTable ''Basic Features'' basic_labels [22, 23, 5, 5, 4, 10, 4 / 10],
         RawTable ''Length Features'' length_labels [0, 5, 9 / 10],
         RawTable ''Token Features'' token_labels
           [99 / 100, 99 / 100, 66 / 100, 66 / 100, 8 / 10, 8 / 10, 1, 0],
         RawTable ''Fuzzy Features'' fuzzy_labels [93, 95, 93, 100],
         Metric (92 / 100)],
      raised = None\<rparr>"
  by (simp add: compare_questions_def on_value_def seq_def render_def raise_def called_def
      idle_def result_card_def feature_tab_def space_tab_def raw_tab_def pair_helper_def
      unpack2_def sample_vector_def strip_def str_def py_isspace_def judge_def
      meter_colours_def item_def random_normal_def Let_def)

section \<open>Claims about the presentation layer\<close>

text \<open>
  Claim C4. The presentation layer never invokes the feature pipeline when either
  question is empty or whitespace-only after trimming: whenever \<open>q1.strip()\<close> or
  \<open>q2.strip()\<close> is the empty string, the comparison handler renders the warning and
  nothing else, raises nothing and makes no call to the helper; so a run of the page makes
  no call either, whether the button was pressed or not.
\<close>

theorem blank_question_warns_without_call:
  assumes "strip q1 = [] \<or> strip q2 = []"
  shows "compare_questions query_point_creator similarity_threshold q1 q2 =
           \<lparr>calls = [], rendered = [WarningBox], raised = None\<rparr> \<and>
         calls (app query_point_creator similarity_threshold compare_button q1 q2) = []"
  using assms by (simp add: app_def compare_questions_def render_def idle_def)

theorem blank_question_warns_without_call_witness:
  "strip (str ''   '') = [] \<and>
   compare_questions pair_helper (85 / 100) (str ''   '') (str ''What is AI?'') =
     \<lparr>calls = [], rendered = [WarningBox], raised = None\<rparr> \<and>
   calls (app pair_helper (85 / 100) True (str ''   '') (str ''What is AI?'')) = []"
  using blank_question_warns_without_call
    [of "str ''   ''" "str ''What is AI?''" pair_helper "85 / 100" True]
  by (simp add: strip_def str_def py_isspace_def)

text \<open>
  Claim C3. The duplicate or non-duplicate judgment is derived solely by comparing entry 22
  of the feature vector (the cosine similarity, read as \<open>query[0, 22]\<close>) with the
  threshold: whenever the helper's value unpacks to a pair whose first component has the
  entry \<open>cosine_sim\<close> at \<open>[0, 22]\<close>, the run renders exactly one judgment, "duplicate"
  when the similarity is above the threshold and "not duplicate" when it is below; and a
  second run, on other questions and with any other vector that has the same entry
  \<open>[0, 22]\<close>, renders the same judgment.
\<close>

theorem judgment_is_cosine_above_threshold:
  assumes "strip q1 \<noteq> []" and "strip q2 \<noteq> []"
    and "query_point_creator q1 q2 = Inr res"
    and "unpack2 res = Inr (query, result_message)"
    and "getitem2 query 0 22 = Inr cosine_sim"
    and "strip q1' \<noteq> []" and "strip q2' \<noteq> []"
    and "query_point_creator' q1' q2' = Inr res'"
    and "unpack2 res' = Inr (query', result_message')"
    and "getitem2 query' 0 22 = Inr cosine_sim"
  shows "verdicts (rendered (compare_questions query_point_creator similarity_threshold q1 q2)) =
           [judge cosine_sim similarity_threshold] \<and>
         (similarity_threshold < cosine_sim \<longrightarrow>
            judge cosine_sim similarity_threshold = Duplicate) \<and>
         (cosine_sim < similarity_threshold \<longrightarrow>
            judge cosine_sim similarity_threshold = NotDuplicate) \<and>
         verdicts (rendered (compare_questions query_point_creator' similarity_threshold q1' q2')) =
           verdicts (rendered (compare_questions query_point_creator similarity_threshold q1 q2))"
proof -
  have first: "verdicts (rendered (compare_questions query_point_creator similarity_threshold q1 q2)) =
      [judge cosine_sim similarity_threshold]"
    using assms(1-5) by (rule compare_questions_verdicts)
  have second: "verdicts (rendered (compare_questions query_point_creator' similarity_threshold q1' q2')) =
      [judge cosine_sim similarity_threshold]"
    using assms(6-10) by (rule compare_questions_verdicts)
  show ?thesis
    by (simp add: first second judge_def)
qed

theorem judgment_is_cosine_above_threshold_witness:
  "verdicts (rendered (compare_questions pair_helper (85 / 100)
      (str ''How do I learn Python?'') (str ''How can I learn Python?''))) = [Duplicate] \<and>
   verdicts (rendered (compare_questions pair_helper (95 / 100)
      (str ''How do I learn Python?'') (str ''How can I learn Python?''))) = [NotDuplicate] \<and>
   verdicts (rendered (compare_questions other_pair_helper (85 / 100)
      (str ''Is tea healthy?'') (str ''Is tea good for you?''))) = [Duplicate]"
  using judgment_is_cosine_above_threshold
    [of "str ''How do I learn Python?''" "str ''How can I learn Python?''" pair_helper
        "PyTuple [NdArray2 [sample_vector], PyStr (str ''Duplicate'')]"
        "NdArray2 [sample_vector]" "PyStr (str ''Duplicate'')" "92 / 100"
        "str ''Is tea healthy?''" "str ''Is tea good for you?''" other_pair_helper
        "PyTuple [NdArray2 [other_vector], PyStr (str ''Duplicate'')]"
        "NdArray2 [other_vector]" "PyStr (str ''Duplicate'')" "85 / 100"]
    judgment_is_cosine_above_threshold
    [of "str ''How do I learn Python?''" "str ''How can I learn Python?''" pair_helper
        "PyTuple [NdArray2 [sample_vector], PyStr (str ''Duplicate'')]"
        "NdArray2 [sample_vector]" "PyStr (str ''Duplicate'')" "92 / 100"
        "str ''Is tea healthy?''" "str ''Is tea good for you?''" other_pair_helper
        "PyTuple [NdArray2 [other_vector], PyStr (str ''Duplicate'')]"
        "NdArray2 [other_vector]" "PyStr (str ''Duplicate'')" "95 / 100"]
  by (simp add: strip_def str_def py_isspace_def pair_helper_def other_pair_helper_def
      unpack2_def sample_vector_def other_vector_def judge_def)

text \<open>
  Claim C10. A cosine similarity exactly equal to the threshold is judged non-duplicate:
  the comparison is a strict greater-than, so for every threshold \<open>t\<close>, a run whose
  entry \<open>[0, 22]\<close> is \<open>t\<close> renders the judgment "not duplicates".
\<close>

theorem similarity_equal_to_threshold_is_not_duplicate:
  assumes "strip q1 \<noteq> []" and "strip q2 \<noteq> []"
    and "query_point_creator q1 q2 = Inr res"
    and "unpack2 res = Inr (query, result_message)"
    and "getitem2 query 0 22 = Inr similarity_threshold"
  shows "verdicts (rendered (compare_questions query_point_creator similarity_threshold q1 q2)) =
           [NotDuplicate]"
  using compare_questions_verdicts
    [where h = query_point_creator and ?q1.0 = q1 and ?q2.0 = q2 and t = similarity_threshold,
     OF assms]
  by (simp add: judge_def)

theorem similarity_equal_to_threshold_is_not_duplicate_witness:
  "getitem2 (NdArray2 [sample_vector]) 0 22 = Inr (92 / 100) \<and>
   verdicts (rendered (compare_questions pair_helper (92 / 100)
      (str ''How do I learn Python?'') (str ''How can I learn Python?''))) = [NotDuplicate]"
  using similarity_equal_to_threshold_is_not_duplicate
    [of "str ''How do I learn Python?''" "str ''How can I learn Python?''" pair_helper
        "PyTuple [NdArray2 [sample_vector], PyStr (str ''Duplicate'')]"
        "NdArray2 [sample_vector]" "PyStr (str ''Duplicate'')" "92 / 100"]
  by (simp add: strip_def str_def py_isspace_def pair_helper_def unpack2_def sample_vector_def)







section \<open>Properties of the modelled pipeline\<close>

text \<open>The dot product of a vector with itself, and when its norm is zero.\<close>

lemma dot_self: "dot a a = (\<Sum>x\<leftarrow>a. x * x)"
  unfolding dot_def by (induction a) simp_all

lemma dot_self_nonneg: "0 \<le> dot a a"
  unfolding dot_self by (induction a) simp_all

lemma dot_self_zero: "dot a a = 0 \<longleftrightarrow> (\<forall>x \<in> set a. x = 0)"
  unfolding dot_self
proof (induction a)
  case Nil
  show ?case by simp
next
  case (Cons x a)
  have "0 \<le> (\<Sum>y\<leftarrow>a. y * y)"
    using dot_self_nonneg [of a] by (simp add: dot_self)
  then have "x * x + (\<Sum>y\<leftarrow>a. y * y) = 0 \<longleftrightarrow> x = 0 \<and> (\<Sum>y\<leftarrow>a. y * y) = 0"
    by (smt (verit) mult_eq_0_iff zero_le_square)
  with Cons show ?case by simp
qed

lemma norm2_zero: "norm2 a = 0 \<longleftrightarrow> (\<forall>x \<in> set a. x = 0)"
  by (simp add: norm2_def dot_self_zero)

lemma norm2_square: "norm2 a * norm2 a = dot a a"
  by (simp add: norm2_def dot_self_nonneg)

text \<open>An embedding has norm zero exactly when no token of the question is in the vocabulary.\<close>

lemma norm2_embedding_zero:
  "norm2 (embedding vocab ws) = 0 \<longleftrightarrow> set ws \<inter> set vocab = {}"
  by (auto simp: norm2_zero embedding_def count_list_0_iff)

lemma cosine_similarity_self: "cosine_similarity a a = (if norm2 a = 0 then 0 else 1)"
proof (cases "norm2 a = 0")
  case True
  then show ?thesis by (simp add: cosine_similarity_def)
next
  case False
  then have "dot a a \<noteq> 0" by (simp add: norm2_def)
  then have one: "dot a a / (norm2 a * norm2 a) = 1"
    by (simp add: norm2_square)
  have "cosine_similarity a a = min 1 (max 0 (dot a a / (norm2 a * norm2 a)))"
    using False by (simp add: cosine_similarity_def)
  also have "\<dots> = 1"
    unfolding one by simp
  finally show ?thesis
    using False by simp
qed

lemma cosine_similarity_range: "0 \<le> cosine_similarity a b \<and> cosine_similarity a b \<le> 1"
  by (simp add: cosine_similarity_def)

text \<open>
  The scorer in floating point: where a norm is zero the dot product is zero too, so the
  formula alone is zero over zero; the guarded scorer always returns a number, the one
  \<open>cosine_similarity\<close> gives.
\<close>

lemma dot_zero_left: "\<forall>x \<in> set a. x = 0 \<Longrightarrow> dot a b = 0"
  unfolding dot_def
proof (induction a arbitrary: b)
  case Nil
  show ?case by simp
next
  case (Cons x a)
  then show ?case by (cases b) simp_all
qed

lemma dot_zero_right: "\<forall>y \<in> set b. y = 0 \<Longrightarrow> dot a b = 0"
  unfolding dot_def
proof (induction b arbitrary: a)
  case Nil
  show ?case by simp
next
  case (Cons y b)
  then show ?case by (cases a) simp_all
qed

lemma dot_zero_norm: "norm2 a = 0 \<or> norm2 b = 0 \<Longrightarrow> dot a b = 0"
  using dot_zero_left [of a b] dot_zero_right [of b a] by (auto simp: norm2_zero)

lemma cosine_quotient_zero_norm: "norm2 a = 0 \<or> norm2 b = 0 \<Longrightarrow> cosine_quotient a b = NaN"
  using dot_zero_norm [of a b] by (auto simp: cosine_quotient_def fdiv_def)

lemma cosine_scorer_number: "cosine_scorer a b = Num (cosine_similarity a b)"
  by (simp add: cosine_scorer_def cosine_quotient_def fdiv_def cosine_similarity_def)

text \<open>The sizes of the four groups, and the place of the similarity behind them.\<close>

lemma groups_length:
  "length (basic_features T n1 n2) = 7"
  "length (token_features T n1 n2) = 8"
  "length (length_features T n1 n2) = 3"
  "length (fuzzy_features T n1 n2) = 4"
  by (simp_all add: basic_features_def token_features_def length_features_def
      fuzzy_features_def Let_def)

lemma compute_features_last:
  "compute_features T a b ! 22 = question_similarity T a b"
  by (simp add: compute_features_def Let_def nth_append groups_length)

text \<open>
  Ranges in the modelled pipeline: with a positive \<open>\<epsilon>\<close>, every ratio of the basic,
  token and length features lies in [0, 1], as the similarity does. The fuzzy scores are
  whatever the scorers of the tables return.
\<close>

lemma common_count_le_left: "common_count ws1 ws2 \<le> length ws1"
  unfolding common_count_def
  by (rule order_trans [OF length_remdups_leq]) simp

lemma common_count_le_right: "common_count ws1 ws2 \<le> length ws2"
proof -
  have "common_count ws1 ws2 = card (set (filter (\<lambda>w. w \<in> set ws2) ws1))"
    by (simp add: common_count_def length_remdups_card_conv)
  also have "\<dots> \<le> card (set ws2)"
    by (rule card_mono) auto
  also have "\<dots> \<le> length ws2"
    by (rule card_length)
  finally show ?thesis .
qed

lemma guarded_ratio_range:
  fixes e :: real
  assumes "0 < e" and "c \<le> n"
  shows "0 \<le> real c / (real n + e) \<and> real c / (real n + e) \<le> 1"
  using assms by (simp add: divide_le_eq_1)

lemma first_match_range: "first_match ws1 ws2 = 0 \<or> first_match ws1 ws2 = 1"
  by (simp add: first_match_def split: list.splits)

lemma lcs_step_bound:
  assumes "\<forall>p \<in> set (fst st). p \<le> k" and "snd st \<le> k"
  shows "(\<forall>p \<in> set (fst (lcs_step ws2 st x)). p \<le> Suc k) \<and> snd (lcs_step ws2 st x) \<le> Suc k"
proof -
  let ?row = "map2 (\<lambda>y p. if x = y then Suc p else 0) ws2 (0 # fst st)"
  have row: "\<forall>q \<in> set ?row. q \<le> Suc k"
  proof
    fix q
    assume "q \<in> set ?row"
    then obtain y p where in_zip: "(y, p) \<in> set (zip ws2 (0 # fst st))"
      and q: "q = (if x = y then Suc p else 0)"
      by auto
    from in_zip have "p \<in> set (0 # fst st)"
      by (rule set_zip_rightD)
    with assms(1) have "p \<le> k"
      by auto
    with q show "q \<le> Suc k"
      by simp
  qed
  have fold_le: "fold max r b \<le> m" if "\<forall>p \<in> set r. p \<le> m" and "b \<le> m" for r :: "nat list" and b m
    using that by (induction r arbitrary: b) auto
  show ?thesis
    using row assms(2) by (simp add: lcs_step_def Let_def fold_le)
qed

lemma foldl_lcs_bound:
  assumes "\<forall>p \<in> set (fst st). p \<le> k" and "snd st \<le> k"
  shows "snd (foldl (lcs_step ws2) st ws1) \<le> k + length ws1"
  using assms
proof (induction ws1 arbitrary: st k)
  case Nil
  then show ?case by simp
next
  case (Cons x ws1)
  have "snd (foldl (lcs_step ws2) (lcs_step ws2 st x) ws1) \<le> Suc k + length ws1"
    using lcs_step_bound [OF Cons.prems] by (intro Cons.IH) auto
  then show ?case by simp
qed

lemma longest_common_run_le: "longest_common_run ws1 ws2 \<le> length ws1"
  using foldl_lcs_bound [of "(replicate (length ws2) 0, 0)" 0 ws2 ws1]
  by (simp add: longest_common_run_def)

lemma common_count_filter_le:
  "common_count (filter P ws1) (filter Q ws2) \<le> min (length ws1) (length ws2)"
proof -
  have "common_count (filter P ws1) (filter Q ws2) \<le> length (filter P ws1)"
    by (rule common_count_le_left)
  moreover have "common_count (filter P ws1) (filter Q ws2) \<le> length (filter Q ws2)"
    by (rule common_count_le_right)
  moreover have "length (filter P ws1) \<le> length ws1"
    by simp
  moreover have "length (filter Q ws2) \<le> length ws2"
    by simp
  ultimately show ?thesis
    by linarith
qed

lemma common_count_le_min: "common_count ws1 ws2 \<le> min (length ws1) (length ws2)"
  using common_count_le_left [of ws1 ws2] common_count_le_right [of ws1 ws2] by simp

lemma basic_ratio_range:
  assumes "0 < epsilon T"
  shows "0 \<le> basic_features T n1 n2 ! 6 \<and> basic_features T n1 n2 ! 6 \<le> 1"
proof -
  have "common_count (tokens n1) (tokens n2) \<le> length (tokens n1) + length (tokens n2)"
    using common_count_le_left [of "tokens n1" "tokens n2"] by simp
  from guarded_ratio_range [OF assms this] show ?thesis
    by (simp add: basic_features_def Let_def)
qed

lemma token_features_range:
  assumes "0 < epsilon T" and "x \<in> set (token_features T n1 n2)"
  shows "0 \<le> x \<and> x \<le> 1"
proof -
  let ?ws1 = "tokens n1" and ?ws2 = "tokens n2"
  let ?lo = "min (length ?ws1) (length ?ws2)" and ?hi = "max (length ?ws1) (length ?ws2)"
  have lo_hi: "?lo \<le> ?hi"
    by simp
  have ratio: "0 \<le> real c / (real ?lo + epsilon T) \<and> real c / (real ?lo + epsilon T) \<le> 1 \<and>
      0 \<le> real c / (real ?hi + epsilon T) \<and> real c / (real ?hi + epsilon T) \<le> 1"
    if "c \<le> ?lo" for c
    using guarded_ratio_range [OF assms(1) that]
      guarded_ratio_range [OF assms(1) order_trans [OF that lo_hi]]
    by simp
  note r1 = ratio [OF common_count_filter_le
      [of "\<lambda>w. w \<notin> set (stopwords T)" ?ws1 "\<lambda>w. w \<notin> set (stopwords T)" ?ws2]]
  note r2 = ratio [OF common_count_filter_le
      [of "\<lambda>w. w \<in> set (stopwords T)" ?ws1 "\<lambda>w. w \<in> set (stopwords T)" ?ws2]]
  note r3 = ratio [OF common_count_le_min [of ?ws1 ?ws2]]
  have flags: "0 \<le> first_match a b \<and> first_match a b \<le> 1" for a b
    using first_match_range [of a b] by auto
  show ?thesis
    using assms(2) r1 r2 r3 flags [of ?ws1 ?ws2] flags [of "rev ?ws1" "rev ?ws2"]
    by (auto simp: token_features_def Let_def last_match_def)
qed

lemma length_ratio_range:
  assumes "0 < epsilon T"
  shows "0 \<le> length_features T n1 n2 ! 2 \<and> length_features T n1 n2 ! 2 \<le> 1"
proof -
  have "longest_common_run (tokens n1) (tokens n2) \<le> length (tokens n1) + length (tokens n2)"
    using longest_common_run_le [of "tokens n1" "tokens n2"] by simp
  from guarded_ratio_range [OF assms this] show ?thesis
    by (simp add: length_features_def Let_def)
qed

text \<open>
  The first example of section 8 of the specification, on the sample tables: the same
  question with and without its question mark has similarity 1, matching last and first
  words and no difference in token count.
\<close>

lemma spec_example_same_question:
  "compute_features sample_tables (str ''What is the capital of France?'')
      (str ''What is the capital of France'') ! 22 = 1 \<and>
   token_features sample_tables
      (normalizer sample_tables (str ''What is the capital of France?''))
      (normalizer sample_tables (str ''What is the capital of France'')) ! 6 = 1 \<and>
   token_features sample_tables
      (normalizer sample_tables (str ''What is the capital of France?''))
      (normalizer sample_tables (str ''What is the capital of France'')) ! 7 = 1 \<and>
   length_features sample_tables
      (normalizer sample_tables (str ''What is the capital of France?''))
      (normalizer sample_tables (str ''What is the capital of France'')) ! 0 = 0"
proof -
  have same: "normalizer sample_tables (str ''What is the capital of France?'') =
      normalizer sample_tables (str ''What is the capital of France'')"
    by (simp add: sample_tables_def sample_normalizer_def str_def)
  have toks: "tokens (normalizer sample_tables (str ''What is the capital of France'')) =
      [str ''what'', str ''is'', str ''the'', str ''capital'', str ''of'', str ''france'']"
    by (simp add: sample_tables_def sample_normalizer_def tokens_def strip_def str_def
        py_isspace_def fold_case_def)
  have "compute_features sample_tables (str ''What is the capital of France?'')
      (str ''What is the capital of France'') ! 22 = 1"
    unfolding compute_features_last question_similarity_def same cosine_similarity_self
      norm2_embedding_zero toks
    by (simp add: sample_tables_def str_def)
  then show ?thesis
    unfolding same
    by (simp add: token_features_def length_features_def Let_def toks first_match_def
        last_match_def)
qed

section \<open>Claims about the feature pipeline\<close>

text \<open>
  Claim C1. For every pair of input strings, the pipeline's output is a single
  fixed-order feature vector of exactly 23 numeric fields, laid out as: indices 0 to 6
  the basic features, 7 to 14 the token features, 15 to 17 the length features, 18 to 21
  the fuzzy features and 22 the cosine similarity. Stated with the very slices the page
  takes of row 0 of its query array (\<open>[0, 0:7]\<close>, \<open>[0, 7:15]\<close>, \<open>[0, 15:18]\<close>,
  \<open>[0, 18:22]\<close> and \<open>[0, 22]\<close>); the fields are real numbers, so each is finite.
\<close>

theorem feature_vector_has_23_fields_in_fixed_order:
  "length (compute_features T question_a question_b) = 23 \<and>
   getslice2 (NdArray2 [compute_features T question_a question_b]) 0 0 7 =
     Inr (basic_features T (normalizer T question_a) (normalizer T question_b)) \<and>
   getslice2 (NdArray2 [compute_features T question_a question_b]) 0 7 15 =
     Inr (token_features T (normalizer T question_a) (normalizer T question_b)) \<and>
   getslice2 (NdArray2 [compute_features T question_a question_b]) 0 15 18 =
     Inr (length_features T (normalizer T question_a) (normalizer T question_b)) \<and>
   getslice2 (NdArray2 [compute_features T question_a question_b]) 0 18 22 =
     Inr (fuzzy_features T (normalizer T question_a) (normalizer T question_b)) \<and>
   getitem2 (NdArray2 [compute_features T question_a question_b]) 0 22 =
     Inr (question_similarity T question_a question_b)"
proof -
  let ?n1 = "normalizer T question_a" and ?n2 = "normalizer T question_b"
  have v: "compute_features T question_a question_b =
      basic_features T ?n1 ?n2 @ token_features T ?n1 ?n2 @ length_features T ?n1 ?n2 @
      fuzzy_features T ?n1 ?n2 @ [question_similarity T question_a question_b]"
    by (simp add: compute_features_def Let_def)
  have len: "length (compute_features T question_a question_b) = 23"
    by (simp add: v groups_length)
  have last: "compute_features T question_a question_b ! 22 =
      question_similarity T question_a question_b"
    by (rule compute_features_last)
  have s1: "take 7 (compute_features T question_a question_b) = basic_features T ?n1 ?n2"
    by (simp add: v groups_length)
  have s2: "take 8 (drop 7 (compute_features T question_a question_b)) = token_features T ?n1 ?n2"
    by (simp add: v groups_length)
  have s3: "take 3 (drop 15 (compute_features T question_a question_b)) = length_features T ?n1 ?n2"
    by (simp add: v groups_length)
  have s4: "take 4 (drop 18 (compute_features T question_a question_b)) = fuzzy_features T ?n1 ?n2"
    by (simp add: v groups_length)
  show ?thesis
    by (simp add: len last s1 s2 s3 s4)
qed

theorem feature_vector_has_23_fields_in_fixed_order_witness:
  "length (compute_features sample_tables (str ''What is the capital of France?'')
      (str ''What is the capital of France'')) = 23 \<and>
   getitem2 (NdArray2 [compute_features sample_tables (str ''What is the capital of France?'')
      (str ''What is the capital of France'')]) 0 22 =
     Inr (question_similarity sample_tables (str ''What is the capital of France?'')
      (str ''What is the capital of France''))"
  using feature_vector_has_23_fields_in_fixed_order
    [of sample_tables "str ''What is the capital of France?''"
        "str ''What is the capital of France''"]
  by blast

text \<open>
  Claim C6. When either question's embedding vector has zero norm, the cosine similarity,
  field 22 of the feature vector, is defined to be 0: there the scorer returns the number
  0, where the formula alone, zero over zero, is not a number; and for every pair of
  vectors the scorer returns a number, never NaN and never an infinity. Field 22 of the
  feature vector is the number the scorer returns for the two embeddings.
\<close>

theorem zero_norm_embedding_gives_similarity_zero:
  "(norm2 (embedding (vocabulary T) (tokens (normalizer T question_a))) = 0 \<or>
    norm2 (embedding (vocabulary T) (tokens (normalizer T question_b))) = 0 \<longrightarrow>
      cosine_scorer (embedding (vocabulary T) (tokens (normalizer T question_a)))
                    (embedding (vocabulary T) (tokens (normalizer T question_b))) = Num 0 \<and>
      cosine_quotient (embedding (vocabulary T) (tokens (normalizer T question_a)))
                      (embedding (vocabulary T) (tokens (normalizer T question_b))) = NaN \<and>
      compute_features T question_a question_b ! 22 = 0 \<and>
      score T question_a question_b = 0) \<and>
   cosine_scorer (embedding (vocabulary T) (tokens (normalizer T question_a)))
                 (embedding (vocabulary T) (tokens (normalizer T question_b))) =
     Num (compute_features T question_a question_b ! 22) \<and>
   cosine_scorer a b \<noteq> NaN \<and> cosine_scorer a b \<noteq> PosInf \<and> cosine_scorer a b \<noteq> NegInf"
proof -
  let ?ea = "embedding (vocabulary T) (tokens (normalizer T question_a))"
  let ?eb = "embedding (vocabulary T) (tokens (normalizer T question_b))"
  have field: "compute_features T question_a question_b ! 22 = cosine_similarity ?ea ?eb"
    by (simp add: compute_features_last question_similarity_def)
  have tie: "cosine_scorer ?ea ?eb = Num (compute_features T question_a question_b ! 22)"
    by (simp add: field cosine_scorer_number)
  have zero: "cosine_scorer ?ea ?eb = Num 0 \<and> cosine_quotient ?ea ?eb = NaN \<and>
      compute_features T question_a question_b ! 22 = 0 \<and> score T question_a question_b = 0"
    if "norm2 ?ea = 0 \<or> norm2 ?eb = 0"
  proof -
    have "cosine_scorer ?ea ?eb = Num 0"
      using that by (simp add: cosine_scorer_def)
    moreover from this have "compute_features T question_a question_b ! 22 = 0"
      by (simp add: tie)
    moreover have "cosine_quotient ?ea ?eb = NaN"
      using that by (rule cosine_quotient_zero_norm)
    ultimately show ?thesis
      by (simp add: score_def)
  qed
  have total: "cosine_scorer a b \<noteq> NaN \<and> cosine_scorer a b \<noteq> PosInf \<and> cosine_scorer a b \<noteq> NegInf"
    by (simp add: cosine_scorer_number)
  show ?thesis
    using tie zero total by blast
qed

theorem zero_norm_embedding_gives_similarity_zero_witness:
  "cosine_scorer
      (embedding (vocabulary sample_tables) (tokens (normalizer sample_tables (str ''Hello there''))))
      (embedding (vocabulary sample_tables)
         (tokens (normalizer sample_tables (str ''What is the capital of France?'')))) = Num 0 \<and>
   cosine_quotient
      (embedding (vocabulary sample_tables) (tokens (normalizer sample_tables (str ''Hello there''))))
      (embedding (vocabulary sample_tables)
         (tokens (normalizer sample_tables (str ''What is the capital of France?'')))) = NaN \<and>
   compute_features sample_tables (str ''Hello there'')
      (str ''What is the capital of France?'') ! 22 = 0 \<and>
   score sample_tables (str ''Hello there'') (str ''What is the capital of France?'') = 0"
proof -
  have zero: "norm2 (embedding (vocabulary sample_tables)
      (tokens (normalizer sample_tables (str ''Hello there'')))) = 0"
    by (simp add: norm2_embedding_zero sample_tables_def sample_normalizer_def tokens_def
        strip_def str_def py_isspace_def fold_case_def)
  show ?thesis
    using zero_norm_embedding_gives_similarity_zero
      [of sample_tables "str ''Hello there''" "str ''What is the capital of France?''"] zero
    by blast
qed

text \<open>
  Claim C7. For every string \<open>a\<close>, comparing \<open>a\<close> with itself yields a cosine
  similarity, field 22 of the feature vector, of exactly 1 provided \<open>a\<close> contains at
  least one token of the vocabulary; if it contains none, the similarity is 0.
\<close>

theorem self_similarity_is_one_with_a_vocabulary_token:
  "score T a a = (if set (tokens (normalizer T a)) \<inter> set (vocabulary T) = {} then 0 else 1) \<and>
   compute_features T a a ! 22 = score T a a"
  by (simp add: score_def compute_features_last question_similarity_def
      cosine_similarity_self norm2_embedding_zero)

theorem self_similarity_is_one_with_a_vocabulary_token_witness:
  "score sample_tables (str ''What is the capital of France?'')
      (str ''What is the capital of France?'') = 1 \<and>
   score sample_tables (str ''Hello there'') (str ''Hello there'') = 0"
  using self_similarity_is_one_with_a_vocabulary_token
      [of sample_tables "str ''What is the capital of France?''"]
    self_similarity_is_one_with_a_vocabulary_token [of sample_tables "str ''Hello there''"]
  by (simp add: sample_tables_def sample_normalizer_def tokens_def strip_def str_def
      py_isspace_def fold_case_def)

end
